theory Spec2Isabelle
  imports Complex_Main
begin

section \<open>The carbon-credit simulation of \<^verbatim>\<open>Carlos.py\<close>\<close>

text \<open>
  A shallow embedding of the class \<^verbatim>\<open>CarbonCreditSimulation\<close>.

  \<^item> numpy's float64 values are idealised as \<open>real\<close>: rounding, overflow and NaN are not
    modelled. The one place where that changes a discount factor is a discount rate of
    exactly \<open>-1\<close> (numpy divides by zero and yields \<open>inf\<close>, HOL yields \<open>0\<close>); no
    statement below gives the value of an NPV at that rate.
  \<^item> numpy arrays are lists; Python integers (\<^verbatim>\<open>num_simulations\<close>, \<^verbatim>\<open>TIME_HORIZON\<close>)
    are \<open>int\<close>, so that non-positive values can be given to the code.
  \<^item> exceptions are values: every function that can raise returns \<open>py_error + 'a\<close>.
  \<^item> the global generator \<^verbatim>\<open>np.random\<close> is an explicit random source that every sampling
    call reads and advances.
\<close>

subsection \<open>Errors and the object's state\<close>

datatype py_error = ValueError | IndexError | KeyError

record simulation =
  num_simulations :: int
  CARBON_STOCK :: real
  ANNUAL_ABSORPTION :: real
  DISCOUNT_RATE :: real
  TIME_HORIZON :: int

text \<open>\<^verbatim>\<open>__init__\<close>: stores its three arguments and the two constants; it checks nothing.\<close>

definition init :: "int \<Rightarrow> real \<Rightarrow> int \<Rightarrow> simulation" where
  "init n discount_rate time_horizon =
     \<lparr>num_simulations = n,
      CARBON_STOCK = 569,
      ANNUAL_ABSORPTION = 95 / 10,
      DISCOUNT_RATE = discount_rate,
      TIME_HORIZON = time_horizon\<rparr>"

subsection \<open>The numpy operations the class uses\<close>

text \<open>
  \<^verbatim>\<open>np.zeros(n)\<close>: \<open>n\<close> zeros; a negative \<open>n\<close> raises ValueError (negative dimensions).
\<close>

definition np_zeros :: "int \<Rightarrow> py_error + real list" where
  "np_zeros n = (if n < 0 then Inl ValueError else Inr (replicate (nat n) 0))"

text \<open>\<^verbatim>\<open>a[0] = v\<close>: IndexError on an array of size 0.\<close>

definition set_item0 :: "real list \<Rightarrow> real \<Rightarrow> py_error + real list" where
  "set_item0 a v = (if a = [] then Inl IndexError else Inr (a[0 := v]))"

text \<open>\<^verbatim>\<open>a[1:] = v\<close>: every entry from index 1 on becomes \<open>v\<close>; an empty slice is left alone.\<close>

definition set_slice1 :: "real list \<Rightarrow> real \<Rightarrow> real list" where
  "set_slice1 a v = take 1 a @ replicate (length a - 1) v"

text \<open>
  \<^verbatim>\<open>np.linspace(start, stop, num)\<close>: \<open>num\<close> evenly spaced points, the step being
  \<open>(stop - start) / (num - 1)\<close>.
\<close>

definition np_linspace :: "real \<Rightarrow> real \<Rightarrow> nat \<Rightarrow> real list" where
  "np_linspace start stop num =
     map (\<lambda>i. start + real i * ((stop - start) / real (num - 1))) [0..<num]"

text \<open>
  \<^verbatim>\<open>np.percentile(a, q)\<close> with numpy's default linear interpolation: on the sorted
  data, the virtual index is \<open>(n - 1) * q / 100\<close>; at or beyond the last index the
  maximum is taken, otherwise the two neighbours are interpolated. An empty array has
  no percentile (IndexError in numpy from 1.22 on; NaN before, which no comparison
  satisfies): it is an error here.
\<close>

definition np_percentile :: "real list \<Rightarrow> real \<Rightarrow> py_error + real" where
  "np_percentile a q =
     (if a = [] then Inl IndexError
      else let s = sort a;
               n = length s;
               v = real (n - 1) * (q / 100);
               previous = nat \<lfloor>v\<rfloor>
           in if v \<ge> real (n - 1) then Inr (last s)
              else Inr (s ! previous + (s ! (previous + 1) - s ! previous) * (v - real previous)))"

subsection \<open>\<^verbatim>\<open>calculate_npv\<close>\<close>

text \<open>
  \<^verbatim>\<open>years = np.arange(len(cash_flows))\<close>,
  \<^verbatim>\<open>discount_factors = 1 / (1 + discount_rate) ** years\<close>,
  \<^verbatim>\<open>np.sum(cash_flows * discount_factors)\<close>. The optional argument defaults to the
  object's rate.
\<close>

definition calculate_npv :: "simulation \<Rightarrow> real list \<Rightarrow> real option \<Rightarrow> real" where
  "calculate_npv self cash_flows discount_rate =
     (let r = (case discount_rate of None \<Rightarrow> DISCOUNT_RATE self | Some d \<Rightarrow> d);
          years = [0..<length cash_flows];
          discount_factors = map (\<lambda>y. 1 / (1 + r) ^ y) years
      in sum_list (map2 (*) cash_flows discount_factors))"

subsection \<open>The random source and \<^verbatim>\<open>generate_price_scenarios\<close>\<close>

text \<open>
  The state of the global generator is the sequence of standard normal variates it will
  hand out next. \<^verbatim>\<open>np.random.normal(loc, scale, size)\<close> raises ValueError on a negative
  scale or a negative size; otherwise it returns \<open>loc + scale * z\<close> for the next \<open>size\<close>
  variates \<open>z\<close> and leaves the generator positioned after them.
\<close>

type_synonym random_source = "nat \<Rightarrow> real"

definition np_random_normal ::
  "random_source \<Rightarrow> real \<Rightarrow> real \<Rightarrow> int \<Rightarrow> py_error + (real list \<times> random_source)" where
  "np_random_normal rng loc scale sz =
     (if scale < 0 \<or> sz < 0 then Inl ValueError
      else Inr (map (\<lambda>i. loc + scale * rng i) [0..<nat sz], (\<lambda>i. rng (i + nat sz))))"

definition generate_price_scenarios ::
  "simulation \<Rightarrow> random_source \<Rightarrow> real \<Rightarrow> real \<Rightarrow> py_error + (real list \<times> random_source)" where
  "generate_price_scenarios self rng mean_price std_dev =
     np_random_normal rng mean_price std_dev (num_simulations self)"

subsection \<open>\<^verbatim>\<open>simulate_conventional_use\<close>\<close>

text \<open>
  The inner loop \<^verbatim>\<open>for year in range(self.TIME_HORIZON)\<close>: an even year adds the trial's
  cattle revenue to that year's entry, an odd year its soy revenue.
\<close>

fun rotation :: "real \<Rightarrow> real \<Rightarrow> nat list \<Rightarrow> real list \<Rightarrow> real list" where
  "rotation cattle soy [] cash_flows = cash_flows"
| "rotation cattle soy (year # years) cash_flows =
     rotation cattle soy years
       (cash_flows[year := cash_flows ! year + (if year mod 2 = 0 then cattle else soy)])"

text \<open>
  The body of the trial loop up to the call of \<^verbatim>\<open>calculate_npv\<close>: the zero vector, the
  timber revenue written to year 0 when it is positive, then the rotation.
\<close>

definition conventional_cash_flows ::
  "simulation \<Rightarrow> real \<Rightarrow> real \<Rightarrow> real \<Rightarrow> py_error + real list" where
  "conventional_cash_flows self timber_value cattle_revenue soy_revenue =
     (case np_zeros (TIME_HORIZON self) of
        Inl e \<Rightarrow> Inl e
      | Inr zeros \<Rightarrow>
          (case (if timber_value > 0 then set_item0 zeros timber_value else Inr zeros) of
             Inl e \<Rightarrow> Inl e
           | Inr cash_flows \<Rightarrow>
               Inr (rotation cattle_revenue soy_revenue [0..<nat (TIME_HORIZON self)] cash_flows)))"

text \<open>
  The trial loop \<^verbatim>\<open>for i in range(self.num_simulations)\<close>, appending one NPV per trial;
  trial \<open>i\<close> reads entry \<open>i\<close> of each revenue array.
\<close>

fun trials ::
  "simulation \<Rightarrow> real \<Rightarrow> real list \<Rightarrow> real list \<Rightarrow> nat list \<Rightarrow> real list \<Rightarrow> py_error + real list" where
  "trials self timber_value cattle_revenues soy_revenues [] conventional_npvs = Inr conventional_npvs"
| "trials self timber_value cattle_revenues soy_revenues (i # rest) conventional_npvs =
     (case conventional_cash_flows self timber_value (cattle_revenues ! i) (soy_revenues ! i) of
        Inl e \<Rightarrow> Inl e
      | Inr cash_flows \<Rightarrow>
          trials self timber_value cattle_revenues soy_revenues rest
            (conventional_npvs @ [calculate_npv self cash_flows None]))"

definition simulate_conventional_use ::
  "simulation \<Rightarrow> random_source \<Rightarrow> real \<Rightarrow> real \<Rightarrow> real \<Rightarrow> real \<Rightarrow> real
     \<Rightarrow> py_error + (real list \<times> random_source)" where
  "simulate_conventional_use self rng timber_value cattle_mean cattle_std soy_mean soy_std =
     (case generate_price_scenarios self rng cattle_mean cattle_std of
        Inl e \<Rightarrow> Inl e
      | Inr (cattle_revenues, rng1) \<Rightarrow>
          (case generate_price_scenarios self rng1 soy_mean soy_std of
             Inl e \<Rightarrow> Inl e
           | Inr (soy_revenues, rng2) \<Rightarrow>
               (case trials self timber_value cattle_revenues soy_revenues
                       [0..<nat (num_simulations self)] [] of
                  Inl e \<Rightarrow> Inl e
                | Inr conventional_npvs \<Rightarrow> Inr (conventional_npvs, rng2))))"

subsection \<open>\<^verbatim>\<open>find_equilibrium_carbon_prices\<close>\<close>

text \<open>One row of the returned data frame (the dict appended in the loop).\<close>

record price_point =
  stock_price :: real
  flow_price :: real
  conservation_npv :: real

text \<open>
  The first half of the loop body: the zero vector, the stock payment written to year 0,
  the flow payment written to the slice from year 1 on.
\<close>

definition conservation_cash_flows :: "simulation \<Rightarrow> real \<Rightarrow> real \<Rightarrow> py_error + real list" where
  "conservation_cash_flows self sp fp =
     (case np_zeros (TIME_HORIZON self) of
        Inl e \<Rightarrow> Inl e
      | Inr zeros \<Rightarrow>
          (case set_item0 zeros (CARBON_STOCK self * sp) of
             Inl e \<Rightarrow> Inl e
           | Inr cash_flows \<Rightarrow>
               (let annual_credit_revenue = ANNUAL_ABSORPTION self * fp
                in Inr (set_slice1 cash_flows annual_credit_revenue))))"

text \<open>
  The whole loop body for one pair of prices: the NPV of the conservation vector is
  compared with \<^verbatim>\<open>np.percentile(conventional_npvs, 75)\<close>, which is computed here, in
  every cell; the row is appended when the NPV reaches it.
\<close>

definition grid_cell ::
  "simulation \<Rightarrow> real list \<Rightarrow> real \<Rightarrow> real \<Rightarrow> price_point list \<Rightarrow> py_error + price_point list" where
  "grid_cell self conventional_npvs sp fp equilibrium_prices =
     (case conservation_cash_flows self sp fp of
        Inl e \<Rightarrow> Inl e
      | Inr conservation_flows \<Rightarrow>
          (let npv = calculate_npv self conservation_flows None
           in case np_percentile conventional_npvs 75 of
                Inl e \<Rightarrow> Inl e
              | Inr p75 \<Rightarrow>
                  if npv \<ge> p75
                  then Inr (equilibrium_prices @
                         [\<lparr>stock_price = sp, flow_price = fp, conservation_npv = npv\<rparr>])
                  else Inr equilibrium_prices))"

fun flow_loop ::
  "simulation \<Rightarrow> real list \<Rightarrow> real \<Rightarrow> real list \<Rightarrow> price_point list \<Rightarrow> py_error + price_point list" where
  "flow_loop self conventional_npvs sp [] equilibrium_prices = Inr equilibrium_prices"
| "flow_loop self conventional_npvs sp (fp # fps) equilibrium_prices =
     (case grid_cell self conventional_npvs sp fp equilibrium_prices of
        Inl e \<Rightarrow> Inl e
      | Inr acc \<Rightarrow> flow_loop self conventional_npvs sp fps acc)"

fun stock_loop ::
  "simulation \<Rightarrow> real list \<Rightarrow> real list \<Rightarrow> real list \<Rightarrow> price_point list
     \<Rightarrow> py_error + price_point list" where
  "stock_loop self conventional_npvs [] flow_credit_prices equilibrium_prices = Inr equilibrium_prices"
| "stock_loop self conventional_npvs (sp # sps) flow_credit_prices equilibrium_prices =
     (case flow_loop self conventional_npvs sp flow_credit_prices equilibrium_prices of
        Inl e \<Rightarrow> Inl e
      | Inr acc \<Rightarrow> stock_loop self conventional_npvs sps flow_credit_prices acc)"

definition find_equilibrium_carbon_prices ::
  "simulation \<Rightarrow> real list \<Rightarrow> py_error + price_point list" where
  "find_equilibrium_carbon_prices self conventional_npvs =
     (let stock_credit_prices = np_linspace 0 1000 100;
          flow_credit_prices = np_linspace 0 1000 100
      in stock_loop self conventional_npvs stock_credit_prices flow_credit_prices [])"

subsection \<open>\<^verbatim>\<open>run_simulation\<close>\<close>

text \<open>
  \<^verbatim>\<open>pd.DataFrame(rows)[key]\<close>: a frame built from an empty list of dicts has no columns,
  so selecting one raises KeyError. \<^verbatim>\<open>min\<close> and \<^verbatim>\<open>median\<close> are those of a non-empty
  column; \<^verbatim>\<open>np.mean\<close> is the arithmetic mean.
\<close>

definition column :: "price_point list \<Rightarrow> (price_point \<Rightarrow> real) \<Rightarrow> py_error + real list" where
  "column frame key = (if frame = [] then Inl KeyError else Inr (map key frame))"

definition series_min :: "real list \<Rightarrow> real" where
  "series_min xs = Min (set xs)"

definition series_median :: "real list \<Rightarrow> real" where
  "series_median xs =
     (let s = sort xs; n = length s
      in if odd n then s ! (n div 2) else (s ! (n div 2 - 1) + s ! (n div 2)) / 2)"

definition np_mean :: "real list \<Rightarrow> real" where
  "np_mean xs = sum_list xs / real (length xs)"

record results =
  conventional_npv_mean :: real
  conventional_npv_p75 :: real
  min_stock_price :: real
  min_flow_price :: real
  recommended_stock_price :: real
  recommended_flow_price :: real

definition run_simulation ::
  "simulation \<Rightarrow> random_source \<Rightarrow> real \<Rightarrow> real \<Rightarrow> real \<Rightarrow> real \<Rightarrow> real
     \<Rightarrow> py_error + ((results \<times> price_point list \<times> real list) \<times> random_source)" where
  "run_simulation self rng timber_value cattle_mean cattle_std soy_mean soy_std =
     (case simulate_conventional_use self rng timber_value cattle_mean cattle_std soy_mean soy_std of
        Inl e \<Rightarrow> Inl e
      | Inr (conventional_npvs, rng') \<Rightarrow>
          (case find_equilibrium_carbon_prices self conventional_npvs of
             Inl e \<Rightarrow> Inl e
           | Inr equilibrium_prices \<Rightarrow>
               (case np_percentile conventional_npvs 75 of
                  Inl e \<Rightarrow> Inl e
                | Inr p75 \<Rightarrow>
                    (case column equilibrium_prices stock_price of
                       Inl e \<Rightarrow> Inl e
                     | Inr stock_column \<Rightarrow>
                         (case column equilibrium_prices flow_price of
                            Inl e \<Rightarrow> Inl e
                          | Inr flow_column \<Rightarrow>
                              Inr ((\<lparr>conventional_npv_mean = np_mean conventional_npvs,
                                     conventional_npv_p75 = p75,
                                     min_stock_price = series_min stock_column,
                                     min_flow_price = series_min flow_column,
                                     recommended_stock_price = series_median stock_column,
                                     recommended_flow_price = series_median flow_column\<rparr>,
                                    equilibrium_prices, conventional_npvs), rng'))))))"

subsection \<open>The search as the specification words it\<close>

text \<open>
  The decoupled formulation of the specification, written from its text and independent
  of the code above: the caller passes the scalar threshold; the search builds two evenly
  spaced axes, and for every pair of the Cartesian product forms the conservation vector
  (year 0 the stock payment, years \<open>1..h-1\<close> the flow payment), takes its present value
  \<open>\<Sum>t. v[t] / (1 + r)^t\<close> and keeps the point iff that value reaches the threshold.
\<close>

definition spec_axis :: "real \<Rightarrow> real \<Rightarrow> nat \<Rightarrow> real list" where
  "spec_axis lo hi resolution =
     map (\<lambda>i. lo + real i * (hi - lo) / real (resolution - 1)) [0..<resolution]"

definition spec_conservation_vector :: "real \<Rightarrow> real \<Rightarrow> nat \<Rightarrow> real \<Rightarrow> real \<Rightarrow> real list" where
  "spec_conservation_vector carbon_stock annual_absorption time_horizon sp fp =
     map (\<lambda>t. if t = 0 then carbon_stock * sp else annual_absorption * fp) [0..<time_horizon]"

definition spec_present_value :: "real list \<Rightarrow> real \<Rightarrow> real" where
  "spec_present_value cash_flows discount_rate =
     (\<Sum>t<length cash_flows. cash_flows ! t / (1 + discount_rate) ^ t)"

definition spec_search ::
  "real \<Rightarrow> real \<Rightarrow> real \<Rightarrow> nat \<Rightarrow> real \<Rightarrow> real \<Rightarrow> real \<Rightarrow> nat \<Rightarrow> price_point list" where
  "spec_search carbon_stock annual_absorption discount_rate time_horizon
       competitiveness_threshold lo hi resolution =
     (let axis = spec_axis lo hi resolution
      in filter (\<lambda>p. conservation_npv p \<ge> competitiveness_threshold)
           (map (\<lambda>(sp, fp).
                   \<lparr>stock_price = sp, flow_price = fp,
                    conservation_npv =
                      spec_present_value
                        (spec_conservation_vector carbon_stock annual_absorption time_horizon sp fp)
                        discount_rate\<rparr>)
              (List.product axis axis)))"

subsection \<open>Sample inputs\<close>

text \<open>A random source that hands out the same variate forever, for concrete runs.\<close>

definition constant_source :: "real \<Rightarrow> random_source" where
  "constant_source z = (\<lambda>i. z)"

section \<open>Closed forms of the code\<close>

subsection \<open>Net present value\<close>

lemma sum_list_map2_upt:
  "sum_list (map2 (*) v (map f [0..<length v])) = (\<Sum>t<length v. (v ! t) * f t)"
proof (induction v rule: rev_induct)
  case Nil
  then show ?case by simp
next
  case (snoc x xs)
  have "map2 (*) (xs @ [x]) (map f [0..<length (xs @ [x])])
        = map2 (*) xs (map f [0..<length xs]) @ [x * f (length xs)]"
    by simp
  then show ?case
    using snoc.IH by (simp add: nth_append)
qed

lemma calculate_npv_sum:
  "calculate_npv self v (Some r) = (\<Sum>t<length v. v ! t / (1 + r) ^ t)"
  by (simp add: calculate_npv_def sum_list_map2_upt)

lemma calculate_npv_default:
  "calculate_npv self v None = calculate_npv self v (Some (DISCOUNT_RATE self))"
  by (simp add: calculate_npv_def)

lemma calculate_npv_mono:
  assumes "0 \<le> DISCOUNT_RATE self" and "length v = length w"
    and "\<And>t. t < length v \<Longrightarrow> v ! t \<le> w ! t"
  shows "calculate_npv self v None \<le> calculate_npv self w None"
proof -
  have pos: "\<And>t. 0 \<le> (1 + DISCOUNT_RATE self) ^ t" using assms(1) by simp
  have "(\<Sum>t<length v. v ! t / (1 + DISCOUNT_RATE self) ^ t)
        \<le> (\<Sum>t<length v. w ! t / (1 + DISCOUNT_RATE self) ^ t)"
    by (rule sum_mono) (simp add: assms(3) divide_right_mono pos)
  then show ?thesis
    by (simp add: calculate_npv_default calculate_npv_sum assms(2))
qed

lemma calculate_npv_rate_zero:
  "DISCOUNT_RATE self = 0 \<Longrightarrow> calculate_npv self v None = sum_list v"
  by (simp add: calculate_npv_default calculate_npv_sum sum_list_sum_nth atLeast0LessThan)

subsection \<open>The price grid and the percentile\<close>

lemma np_linspace_nth:
  "i < num \<Longrightarrow> np_linspace a b num ! i = a + real i * ((b - a) / real (num - 1))"
  by (simp add: np_linspace_def)

lemma np_linspace_length: "length (np_linspace a b num) = num"
  by (simp add: np_linspace_def)

lemma np_linspace_grid_Cons: "\<exists>x xs. np_linspace 0 1000 100 = x # xs"
proof -
  have "length (np_linspace 0 1000 100) = 100" by (rule np_linspace_length)
  then have "np_linspace 0 1000 100 \<noteq> []" by auto
  then show ?thesis by (simp add: neq_Nil_conv)
qed

lemma grid_first: "0 \<in> set (np_linspace 0 1000 100)"
proof -
  have "np_linspace 0 1000 100 ! 0 = 0" by (simp add: np_linspace_nth)
  moreover have "np_linspace 0 1000 100 ! 0 \<in> set (np_linspace 0 1000 100)"
    by (rule nth_mem) (simp add: np_linspace_length)
  ultimately show ?thesis by simp
qed

lemma grid_last: "1000 \<in> set (np_linspace 0 1000 100)"
proof -
  have "np_linspace 0 1000 100 ! 99 = 1000" by (simp add: np_linspace_nth)
  moreover have "np_linspace 0 1000 100 ! 99 \<in> set (np_linspace 0 1000 100)"
    by (rule nth_mem) (simp add: np_linspace_length)
  ultimately show ?thesis by simp
qed

lemma grid_bounds: "x \<in> set (np_linspace 0 1000 100) \<Longrightarrow> 0 \<le> x \<and> x \<le> 1000"
proof -
  assume "x \<in> set (np_linspace 0 1000 100)"
  then obtain i :: nat where i: "i < 100" and x: "x = real i * (1000 / 99)"
    by (auto simp: np_linspace_def)
  have "real i \<le> 99" using i by simp
  then have "real i * (1000 / 99) \<le> 99 * (1000 / 99)"
    by (rule mult_right_mono) simp
  with x show ?thesis by simp
qed

lemma ten_not_on_grid: "10 \<notin> set (np_linspace 0 1000 100)"
proof
  assume "10 \<in> set (np_linspace 0 1000 100)"
  then obtain i :: nat where "10 = real i * (1000 / 99)"
    by (auto simp: np_linspace_def)
  then have "real (i * 100) = real 99" by simp
  then have "i * 100 = 99" by (simp only: of_nat_eq_iff)
  then show False by presburger
qed

lemma np_percentile_nonempty: "a \<noteq> [] \<Longrightarrow> \<exists>p. np_percentile a q = Inr p"
  by (simp add: np_percentile_def Let_def)

lemma np_percentile_singleton: "np_percentile [x] q = Inr x"
  by (simp add: np_percentile_def)

subsection \<open>The conventional simulation in closed form\<close>

lemma rotation_length: "length (rotation c s ys cf) = length cf"
  by (induction ys arbitrary: cf) auto

lemma rotation_nth:
  "distinct ys \<Longrightarrow> t < length cf \<Longrightarrow>
   rotation c s ys cf ! t = (if t \<in> set ys then cf ! t + (if t mod 2 = 0 then c else s) else cf ! t)"
proof (induction ys arbitrary: cf)
  case Nil
  then show ?case by simp
next
  case (Cons y ys)
  have neq: "t \<in> set ys \<Longrightarrow> y \<noteq> t" using Cons.prems by auto
  show ?case
  proof (cases "y = t")
    case True
    then show ?thesis using Cons by simp
  next
    case False
    then show ?thesis using Cons by simp
  qed
qed

lemma conventional_cash_flows_closed:
  assumes "1 \<le> TIME_HORIZON self" and "0 \<le> tv"
  shows "conventional_cash_flows self tv c s =
         Inr (map (\<lambda>t. (if t = 0 then tv else 0) + (if even t then c else s)) [0..<nat (TIME_HORIZON self)])"
proof -
  let ?h = "nat (TIME_HORIZON self)"
  let ?z = "replicate ?h (0::real)"
  let ?cf0 = "if tv > 0 then ?z[0 := tv] else ?z"
  have hpos: "0 < ?h" using assms by simp
  have eq: "conventional_cash_flows self tv c s = Inr (rotation c s [0..<?h] ?cf0)"
    using assms hpos by (simp add: conventional_cash_flows_def np_zeros_def set_item0_def)
  have len: "length ?cf0 = ?h" by simp
  have cf0: "\<And>t. t < ?h \<Longrightarrow> ?cf0 ! t = (if t = 0 then tv else 0)"
    using assms by (auto simp: nth_list_update)
  have "rotation c s [0..<?h] ?cf0 = map (\<lambda>t. (if t = 0 then tv else 0) + (if even t then c else s)) [0..<?h]"
  proof (rule nth_equalityI)
    show "length (rotation c s [0..<?h] ?cf0) = length (map (\<lambda>t. (if t = 0 then tv else 0) + (if even t then c else s)) [0..<?h])"
      by (simp add: rotation_length)
  next
    fix t assume "t < length (rotation c s [0..<?h] ?cf0)"
    then have t: "t < ?h" using len by (simp only: rotation_length)
    then have "rotation c s [0..<?h] ?cf0 ! t = ?cf0 ! t + (if t mod 2 = 0 then c else s)"
      using rotation_nth [of "[0..<?h]" t ?cf0 c s] len by simp
    also have "\<dots> = (if t = 0 then tv else 0) + (if even t then c else s)"
      using cf0 [OF t] by (simp add: even_iff_mod_2_eq_zero)
    finally show "rotation c s [0..<?h] ?cf0 ! t = map (\<lambda>t. (if t = 0 then tv else 0) + (if even t then c else s)) [0..<?h] ! t"
      using t by simp
  qed
  with eq show ?thesis by simp
qed

lemma conventional_cash_flows_ok:
  assumes "1 \<le> TIME_HORIZON self"
  shows "\<exists>cf. conventional_cash_flows self tv c s = Inr cf"
  using assms
  by (simp add: conventional_cash_flows_def np_zeros_def set_item0_def)

lemma trials_closed:
  assumes "\<And>i. i \<in> set ixs \<Longrightarrow> conventional_cash_flows self tv (cr ! i) (sr ! i) = Inr (f i)"
  shows "trials self tv cr sr ixs acc = Inr (acc @ map (\<lambda>i. calculate_npv self (f i) None) ixs)"
  using assms by (induction ixs arbitrary: acc) auto

lemma trials_per_trial_pair:
  assumes "1 \<le> TIME_HORIZON self" and "0 \<le> tv"
  shows "trials self tv cr sr ixs [] =
         Inr (map (\<lambda>i. calculate_npv self
                (map (\<lambda>t. (if t = 0 then tv else 0) + (if even t then cr ! i else sr ! i))
                   [0..<nat (TIME_HORIZON self)]) None) ixs)"
  using trials_closed [where acc = "[]" and self = self and tv = tv and cr = cr and sr = sr and ixs = ixs
      and f = "\<lambda>i. map (\<lambda>t. (if t = 0 then tv else 0) + (if even t then cr ! i else sr ! i)) [0..<nat (TIME_HORIZON self)]"]
    conventional_cash_flows_closed [OF assms]
  by simp

lemma generate_price_scenarios_ok:
  assumes "0 \<le> num_simulations self" and "0 \<le> std_dev"
  shows "generate_price_scenarios self rng mean_price std_dev =
         Inr (map (\<lambda>i. mean_price + std_dev * rng i) [0..<nat (num_simulations self)],
              (\<lambda>i. rng (i + nat (num_simulations self))))"
  using assms by (simp add: generate_price_scenarios_def np_random_normal_def)

lemma generate_price_scenarios_rejects:
  assumes "num_simulations self < 0 \<or> std_dev < 0"
  shows "generate_price_scenarios self rng mean_price std_dev = Inl ValueError"
  using assms by (auto simp: generate_price_scenarios_def np_random_normal_def)

lemma simulate_conventional_use_closed:
  assumes "0 \<le> num_simulations self" and "0 \<le> cattle_std" and "0 \<le> soy_std"
    and "1 \<le> TIME_HORIZON self" and "0 \<le> tv"
  shows "simulate_conventional_use self rng tv cattle_mean cattle_std soy_mean soy_std =
         Inr (map (\<lambda>i. calculate_npv self
                (map (\<lambda>t. (if t = 0 then tv else 0) +
                       (if even t then cattle_mean + cattle_std * rng i
                        else soy_mean + soy_std * rng (i + nat (num_simulations self))))
                   [0..<nat (TIME_HORIZON self)]) None) [0..<nat (num_simulations self)],
              (\<lambda>i. rng (i + nat (num_simulations self) + nat (num_simulations self))))"
proof -
  let ?n = "nat (num_simulations self)"
  let ?cr = "map (\<lambda>i. cattle_mean + cattle_std * rng i) [0..<?n]"
  let ?sr = "map (\<lambda>i. soy_mean + soy_std * rng (i + ?n)) [0..<?n]"
  have g1: "generate_price_scenarios self rng cattle_mean cattle_std = Inr (?cr, (\<lambda>i. rng (i + ?n)))"
    by (rule generate_price_scenarios_ok [OF assms(1) assms(2)])
  have g2: "generate_price_scenarios self (\<lambda>i. rng (i + ?n)) soy_mean soy_std
            = Inr (?sr, (\<lambda>i. rng (i + ?n + ?n)))"
    by (rule generate_price_scenarios_ok [OF assms(1) assms(3)])
  have "map (\<lambda>i. calculate_npv self
                (map (\<lambda>t. (if t = 0 then tv else 0) + (if even t then ?cr ! i else ?sr ! i))
                   [0..<nat (TIME_HORIZON self)]) None) [0..<?n]
        = map (\<lambda>i. calculate_npv self
                (map (\<lambda>t. (if t = 0 then tv else 0) +
                       (if even t then cattle_mean + cattle_std * rng i
                        else soy_mean + soy_std * rng (i + ?n)))
                   [0..<nat (TIME_HORIZON self)]) None) [0..<?n]"
  proof (rule map_cong [OF refl])
    fix i assume "i \<in> set [0..<?n]"
    then have i: "i < ?n" by simp
    have a: "?cr ! i = cattle_mean + cattle_std * rng i" using i by simp
    have b: "?sr ! i = soy_mean + soy_std * rng (i + ?n)" using i by simp
    show "calculate_npv self
                (map (\<lambda>t. (if t = 0 then tv else 0) + (if even t then ?cr ! i else ?sr ! i))
                   [0..<nat (TIME_HORIZON self)]) None
        = calculate_npv self
                (map (\<lambda>t. (if t = 0 then tv else 0) +
                       (if even t then cattle_mean + cattle_std * rng i
                        else soy_mean + soy_std * rng (i + ?n)))
                   [0..<nat (TIME_HORIZON self)]) None"
      unfolding a b by (rule refl)
  qed
  then show ?thesis
    unfolding simulate_conventional_use_def
    by (simp add: g1 g2 trials_per_trial_pair [OF assms(4) assms(5)])
qed

lemma simulate_conventional_use_ok:
  assumes "1 \<le> num_simulations self" and "1 \<le> TIME_HORIZON self" and "0 \<le> cs" and "0 \<le> ss"
  shows "\<exists>npvs rng'. simulate_conventional_use self rng tv cm cs sm ss = Inr (npvs, rng')
           \<and> length npvs = nat (num_simulations self)"
proof -
  let ?n = "nat (num_simulations self)"
  let ?cr = "map (\<lambda>i. cm + cs * rng i) [0..<?n]"
  let ?sr = "map (\<lambda>i. sm + ss * rng (i + ?n)) [0..<?n]"
  have n: "0 \<le> num_simulations self" using assms(1) by simp
  have g1: "generate_price_scenarios self rng cm cs = Inr (?cr, (\<lambda>i. rng (i + ?n)))"
    by (rule generate_price_scenarios_ok [OF n assms(3)])
  have g2: "generate_price_scenarios self (\<lambda>i. rng (i + ?n)) sm ss = Inr (?sr, (\<lambda>i. rng (i + ?n + ?n)))"
    by (rule generate_price_scenarios_ok [OF n assms(4)])
  have "trials self tv ?cr ?sr [0..<?n] [] =
        Inr ([] @ map (\<lambda>i. calculate_npv self (projr (conventional_cash_flows self tv (?cr ! i) (?sr ! i))) None) [0..<?n])"
  proof (rule trials_closed)
    fix i
    from conventional_cash_flows_ok [OF assms(2)]
    obtain cf where "conventional_cash_flows self tv (?cr ! i) (?sr ! i) = Inr cf" by blast
    then show "conventional_cash_flows self tv (?cr ! i) (?sr ! i)
        = Inr (projr (conventional_cash_flows self tv (?cr ! i) (?sr ! i)))"
      by simp
  qed
  then show ?thesis
    by (simp add: simulate_conventional_use_def g1 g2)
qed

subsection \<open>The equilibrium search in closed form\<close>

lemma conservation_cash_flows_closed:
  assumes "1 \<le> TIME_HORIZON self"
  shows "conservation_cash_flows self sp fp =
         Inr (CARBON_STOCK self * sp # replicate (nat (TIME_HORIZON self) - 1) (ANNUAL_ABSORPTION self * fp))"
proof -
  obtain k where k: "nat (TIME_HORIZON self) = Suc k"
    using assms by (cases "nat (TIME_HORIZON self)") auto
  show ?thesis
    using assms k
    by (simp add: conservation_cash_flows_def np_zeros_def set_item0_def set_slice1_def)
qed

lemma conservation_cash_flows_10_10:
  "conservation_cash_flows (init 1 (8 / 100) 2) 10 10 = Inr [5690, 95]"
  by (simp add: conservation_cash_flows_def np_zeros_def set_item0_def set_slice1_def init_def
      numeral_2_eq_2)

lemma grid_cell_closed:
  assumes "conservation_cash_flows self sp fp = Inr cf" and "np_percentile npvs 75 = Inr p"
  shows "grid_cell self npvs sp fp acc =
         Inr (acc @ filter (\<lambda>pt. conservation_npv pt \<ge> p)
               [\<lparr>stock_price = sp, flow_price = fp, conservation_npv = calculate_npv self cf None\<rparr>])"
  using assms by (simp add: grid_cell_def Let_def)

lemma grid_cell_fails:
  assumes "isl (conservation_cash_flows self sp fp) \<or> npvs = []"
  shows "isl (grid_cell self npvs sp fp acc)"
  using assms
  by (auto simp: grid_cell_def Let_def np_percentile_def isl_def split: sum.splits)

lemma flow_loop_closed:
  assumes "\<And>fp. fp \<in> set fps \<Longrightarrow> conservation_cash_flows self sp fp = Inr (f sp fp)"
    and "np_percentile npvs 75 = Inr p"
  shows "flow_loop self npvs sp fps acc =
         Inr (acc @ filter (\<lambda>pt. conservation_npv pt \<ge> p)
               (map (\<lambda>fp. \<lparr>stock_price = sp, flow_price = fp,
                           conservation_npv = calculate_npv self (f sp fp) None\<rparr>) fps))"
  using assms(1)
proof (induction fps arbitrary: acc)
  case Nil
  then show ?case by simp
next
  case (Cons fp fps)
  have "conservation_cash_flows self sp fp = Inr (f sp fp)" using Cons.prems by simp
  from grid_cell_closed [OF this assms(2)] Cons show ?case by simp
qed

lemma stock_loop_closed:
  assumes "\<And>sp fp. sp \<in> set sps \<Longrightarrow> fp \<in> set fps \<Longrightarrow> conservation_cash_flows self sp fp = Inr (f sp fp)"
    and "np_percentile npvs 75 = Inr p"
  shows "stock_loop self npvs sps fps acc =
         Inr (acc @ filter (\<lambda>pt. conservation_npv pt \<ge> p)
               (map (\<lambda>(sp, fp). \<lparr>stock_price = sp, flow_price = fp,
                           conservation_npv = calculate_npv self (f sp fp) None\<rparr>) (List.product sps fps)))"
  using assms(1)
proof (induction sps arbitrary: acc)
  case Nil
  then show ?case by simp
next
  case (Cons sp sps)
  have "flow_loop self npvs sp fps acc =
         Inr (acc @ filter (\<lambda>pt. conservation_npv pt \<ge> p)
               (map (\<lambda>fp. \<lparr>stock_price = sp, flow_price = fp,
                           conservation_npv = calculate_npv self (f sp fp) None\<rparr>) fps))"
    by (rule flow_loop_closed [OF _ assms(2)]) (simp add: Cons.prems)
  moreover have "\<And>acc. stock_loop self npvs sps fps acc =
         Inr (acc @ filter (\<lambda>pt. conservation_npv pt \<ge> p)
               (map (\<lambda>(sp, fp). \<lparr>stock_price = sp, flow_price = fp,
                           conservation_npv = calculate_npv self (f sp fp) None\<rparr>) (List.product sps fps)))"
    by (rule Cons.IH) (simp add: Cons.prems)
  ultimately show ?case by (simp add: comp_def)
qed

lemma find_equilibrium_closed:
  assumes "1 \<le> TIME_HORIZON self" and "np_percentile npvs 75 = Inr p"
  shows "find_equilibrium_carbon_prices self npvs =
         Inr (filter (\<lambda>pt. conservation_npv pt \<ge> p)
               (map (\<lambda>(sp, fp). \<lparr>stock_price = sp, flow_price = fp,
                       conservation_npv = calculate_npv self
                         (CARBON_STOCK self * sp # replicate (nat (TIME_HORIZON self) - 1) (ANNUAL_ABSORPTION self * fp)) None\<rparr>)
                  (List.product (np_linspace 0 1000 100) (np_linspace 0 1000 100))))"
  unfolding find_equilibrium_carbon_prices_def Let_def
  using stock_loop_closed [where acc = "[]" and npvs = npvs and p = p and self = self
      and f = "\<lambda>sp fp. CARBON_STOCK self * sp # replicate (nat (TIME_HORIZON self) - 1) (ANNUAL_ABSORPTION self * fp)",
      OF conservation_cash_flows_closed [OF assms(1)] assms(2)]
  by simp

lemma find_equilibrium_rows_on_grid:
  assumes "find_equilibrium_carbon_prices self npvs = Inr eq" and "pt \<in> set eq"
    and "1 \<le> TIME_HORIZON self" and "npvs \<noteq> []"
  shows "stock_price pt \<in> set (np_linspace 0 1000 100) \<and> flow_price pt \<in> set (np_linspace 0 1000 100)"
proof -
  from np_percentile_nonempty [OF assms(4)]
  obtain p where p: "np_percentile npvs 75 = Inr p" by blast
  from assms(1) assms(2) show ?thesis
    unfolding find_equilibrium_closed [OF assms(3) p] by auto
qed

lemma find_equilibrium_fails:
  assumes "\<And>sp fp. isl (grid_cell self npvs sp fp [])"
  shows "isl (find_equilibrium_carbon_prices self npvs)"
proof -
  from np_linspace_grid_Cons obtain x xs where g: "np_linspace 0 1000 100 = x # xs" by blast
  from assms [of x x] obtain e where "grid_cell self npvs x x [] = Inl e"
    by (auto simp: isl_def)
  then show ?thesis
    by (simp add: find_equilibrium_carbon_prices_def g)
qed

subsection \<open>The specification's search against the code's operations\<close>

lemma spec_axis_linspace: "spec_axis 0 1000 100 = np_linspace 0 1000 100"
  by (simp add: spec_axis_def np_linspace_def)

lemma spec_conservation_vector_closed:
  "0 < h \<Longrightarrow> spec_conservation_vector cs ab h sp fp = cs * sp # replicate (h - 1) (ab * fp)"
proof (rule nth_equalityI)
  assume "0 < h"
  then show "length (spec_conservation_vector cs ab h sp fp) = length (cs * sp # replicate (h - 1) (ab * fp))"
    by (simp add: spec_conservation_vector_def)
next
  fix t assume "0 < h" and "t < length (spec_conservation_vector cs ab h sp fp)"
  then have "t < h" by (simp add: spec_conservation_vector_def)
  then show "spec_conservation_vector cs ab h sp fp ! t = (cs * sp # replicate (h - 1) (ab * fp)) ! t"
    by (cases t) (simp_all add: spec_conservation_vector_def)
qed

lemma spec_present_value_calculate_npv:
  "spec_present_value v (DISCOUNT_RATE self) = calculate_npv self v None"
  by (simp add: spec_present_value_def calculate_npv_default calculate_npv_sum)

subsection \<open>The summary of \<^verbatim>\<open>run_simulation\<close>\<close>

lemma run_simulation_empty_frame:
  assumes "simulate_conventional_use self rng tv cm cs sm ss = Inr (npvs, rng')"
    and "npvs \<noteq> []"
    and "find_equilibrium_carbon_prices self npvs = Inr []"
  shows "run_simulation self rng tv cm cs sm ss = Inl KeyError"
proof -
  from np_percentile_nonempty [OF assms(2)]
  obtain p where "np_percentile npvs 75 = Inr p" by blast
  then show ?thesis
    by (simp add: run_simulation_def assms(1) assms(3) column_def)
qed

lemma run_simulation_nonempty_frame:
  assumes "simulate_conventional_use self rng tv cm cs sm ss = Inr (npvs, rng')"
    and "npvs \<noteq> []"
    and "find_equilibrium_carbon_prices self npvs = Inr eq" and "eq \<noteq> []"
  shows "\<not> isl (run_simulation self rng tv cm cs sm ss)"
proof -
  from np_percentile_nonempty [OF assms(2)]
  obtain p where "np_percentile npvs 75 = Inr p" by blast
  then show ?thesis
    by (simp add: run_simulation_def assms(1) assms(3) assms(4) column_def)
qed

subsection \<open>How arguments outside the intended ranges fail\<close>

lemma simulate_conventional_use_rejects:
  assumes "num_simulations self < 0 \<or> cs < 0 \<or> ss < 0"
  shows "simulate_conventional_use self rng tv cm cs sm ss = Inl ValueError"
  using assms
  by (auto simp: simulate_conventional_use_def generate_price_scenarios_def np_random_normal_def)

lemma conventional_cash_flows_kind:
  assumes "TIME_HORIZON self \<le> 0" and "conventional_cash_flows self tv c s = Inl e"
  shows "e = (if TIME_HORIZON self < 0 then ValueError else IndexError)"
  using assms
  by (auto simp: conventional_cash_flows_def np_zeros_def set_item0_def split: if_splits)

lemma trials_kind:
  assumes "TIME_HORIZON self \<le> 0" and "trials self tv cr sr ixs acc = Inl e"
  shows "e = (if TIME_HORIZON self < 0 then ValueError else IndexError)"
  using assms(2)
proof (induction ixs arbitrary: acc)
  case Nil
  then show ?case by simp
next
  case (Cons i ixs)
  show ?case
  proof (cases "conventional_cash_flows self tv (cr ! i) (sr ! i)")
    case (Inl e')
    with Cons.prems have "e' = e" by simp
    with conventional_cash_flows_kind [OF assms(1) Inl] show ?thesis by simp
  next
    case (Inr cf)
    with Cons.prems have "trials self tv cr sr ixs (acc @ [calculate_npv self cf None]) = Inl e"
      by simp
    then show ?thesis by (rule Cons.IH)
  qed
qed

lemma simulate_conventional_use_kind:
  assumes "TIME_HORIZON self \<le> 0"
    and "simulate_conventional_use self rng tv cm cs sm ss = Inl e"
    and "0 \<le> num_simulations self" and "0 \<le> cs" and "0 \<le> ss"
  shows "e = (if TIME_HORIZON self < 0 then ValueError else IndexError)"
proof -
  let ?n = "nat (num_simulations self)"
  let ?cr = "map (\<lambda>i. cm + cs * rng i) [0..<?n]"
  let ?sr = "map (\<lambda>i. sm + ss * rng (i + ?n)) [0..<?n]"
  have g1: "generate_price_scenarios self rng cm cs = Inr (?cr, (\<lambda>i. rng (i + ?n)))"
    by (rule generate_price_scenarios_ok [OF assms(3) assms(4)])
  have g2: "generate_price_scenarios self (\<lambda>i. rng (i + ?n)) sm ss = Inr (?sr, (\<lambda>i. rng (i + ?n + ?n)))"
    by (rule generate_price_scenarios_ok [OF assms(3) assms(5)])
  from assms(2) have "trials self tv ?cr ?sr [0..<?n] [] = Inl e"
    by (simp add: simulate_conventional_use_def g1 g2 split: sum.splits)
  then show ?thesis by (rule trials_kind [OF assms(1)])
qed

lemma simulate_conventional_use_no_trials:
  assumes "num_simulations self = 0" and "0 \<le> cs" and "0 \<le> ss"
  shows "\<exists>rng'. simulate_conventional_use self rng tv cm cs sm ss = Inr ([], rng')"
  using assms
  by (simp add: simulate_conventional_use_def generate_price_scenarios_def np_random_normal_def)

lemma conservation_cash_flows_kind:
  assumes "TIME_HORIZON self \<le> 0"
  shows "conservation_cash_flows self sp fp =
         Inl (if TIME_HORIZON self < 0 then ValueError else IndexError)"
  using assms
  by (simp add: conservation_cash_flows_def np_zeros_def set_item0_def)

lemma find_equilibrium_Inl:
  assumes "\<And>sp fp. conservation_cash_flows self sp fp = Inl e"
  shows "find_equilibrium_carbon_prices self npvs = Inl e"
proof -
  from np_linspace_grid_Cons obtain x xs where g: "np_linspace 0 1000 100 = x # xs" by blast
  have "grid_cell self npvs x x [] = Inl e"
    by (simp add: grid_cell_def assms)
  then show ?thesis
    by (simp add: find_equilibrium_carbon_prices_def g)
qed

lemma run_simulation_Inl:
  "simulate_conventional_use self rng tv cm cs sm ss = Inl e
   \<Longrightarrow> run_simulation self rng tv cm cs sm ss = Inl e"
  by (simp add: run_simulation_def)

lemma run_simulation_search_Inl:
  "simulate_conventional_use self rng tv cm cs sm ss = Inr (npvs, rng')
   \<Longrightarrow> find_equilibrium_carbon_prices self npvs = Inl e
   \<Longrightarrow> run_simulation self rng tv cm cs sm ss = Inl e"
  by (simp add: run_simulation_def)

lemma run_simulation_bad_horizon:
  assumes "TIME_HORIZON self \<le> 0"
    and "0 \<le> num_simulations self" and "0 \<le> cs" and "0 \<le> ss"
  shows "run_simulation self rng tv cm cs sm ss =
         Inl (if TIME_HORIZON self < 0 then ValueError else IndexError)"
proof (cases "simulate_conventional_use self rng tv cm cs sm ss")
  case (Inl e)
  from simulate_conventional_use_kind [OF assms(1) Inl assms(2) assms(3) assms(4)] Inl
  show ?thesis by (simp only: run_simulation_Inl)
next
  case (Inr out)
  obtain npvs rng' where out: "out = (npvs, rng')" by (cases out)
  have "find_equilibrium_carbon_prices self npvs =
        Inl (if TIME_HORIZON self < 0 then ValueError else IndexError)"
    by (rule find_equilibrium_Inl) (rule conservation_cash_flows_kind [OF assms(1)])
  with Inr [unfolded out] show ?thesis by (rule run_simulation_search_Inl)
qed

lemma run_simulation_no_trials:
  assumes "num_simulations self = 0" and "0 \<le> cs" and "0 \<le> ss"
  shows "isl (run_simulation self rng tv cm cs sm ss)"
proof -
  from simulate_conventional_use_no_trials [OF assms]
  obtain rng' where sim: "simulate_conventional_use self rng tv cm cs sm ss = Inr ([], rng')"
    by blast
  have "isl (find_equilibrium_carbon_prices self [])"
    by (rule find_equilibrium_fails) (simp add: grid_cell_fails)
  then obtain e where "find_equilibrium_carbon_prices self [] = Inl e"
    by (auto simp: isl_def)
  with sim have "run_simulation self rng tv cm cs sm ss = Inl e"
    by (rule run_simulation_search_Inl)
  then show ?thesis by simp
qed

section \<open>The claims\<close>

text \<open>
  C1. For a discount rate in \<open>(0,1)\<close>, a horizon \<open>h \<ge> 1\<close> and a pair of grid prices, the
  search builds a conservation vector of length \<open>h\<close> whose year 0 is
  \<open>CARBON_STOCK * stock_price\<close> and whose years \<open>1..h-1\<close> are
  \<open>ANNUAL_ABSORPTION * flow_price\<close>, and the row (stock price, flow price, NPV) is in the
  returned frame if and only if the NPV of that vector reaches the 75th percentile of the
  conventional NPVs.
\<close>

theorem C1_conservation_vector_and_retention:
  assumes "0 < DISCOUNT_RATE self" and "DISCOUNT_RATE self < 1"
    and "1 \<le> TIME_HORIZON self"
    and "np_percentile conventional_npvs 75 = Inr threshold"
    and "sp \<in> set (np_linspace 0 1000 100)" and "fp \<in> set (np_linspace 0 1000 100)"
  shows "\<exists>cf eq. conservation_cash_flows self sp fp = Inr cf
           \<and> length cf = nat (TIME_HORIZON self)
           \<and> cf ! 0 = CARBON_STOCK self * sp
           \<and> (\<forall>t. 1 \<le> t \<and> t < nat (TIME_HORIZON self) \<longrightarrow> cf ! t = ANNUAL_ABSORPTION self * fp)
           \<and> find_equilibrium_carbon_prices self conventional_npvs = Inr eq
           \<and> (\<lparr>stock_price = sp, flow_price = fp, conservation_npv = calculate_npv self cf None\<rparr> \<in> set eq
                \<longleftrightarrow> calculate_npv self cf None \<ge> threshold)"
proof -
  let ?h = "nat (TIME_HORIZON self)"
  let ?v = "\<lambda>sp fp. CARBON_STOCK self * sp # replicate (?h - 1) (ANNUAL_ABSORPTION self * fp)"
  let ?pt = "\<lambda>(sp, fp). \<lparr>stock_price = sp, flow_price = fp, conservation_npv = calculate_npv self (?v sp fp) None\<rparr>"
  let ?grid = "np_linspace 0 1000 100"
  let ?eq = "filter (\<lambda>pt. conservation_npv pt \<ge> threshold) (map ?pt (List.product ?grid ?grid))"
  have cf: "conservation_cash_flows self sp fp = Inr (?v sp fp)"
    by (rule conservation_cash_flows_closed [OF assms(3)])
  have len: "length (?v sp fp) = ?h" using assms(3) by simp
  have later: "\<forall>t. 1 \<le> t \<and> t < ?h \<longrightarrow> ?v sp fp ! t = ANNUAL_ABSORPTION self * fp"
    by (auto simp: nth_Cons split: nat.splits)
  have eq: "find_equilibrium_carbon_prices self conventional_npvs = Inr ?eq"
    by (rule find_equilibrium_closed [OF assms(3) assms(4)])
  have "?pt (sp, fp) \<in> set ?eq \<longleftrightarrow> calculate_npv self (?v sp fp) None \<ge> threshold"
    using assms(5) assms(6) by (auto simp: image_iff)
  then have mem: "\<lparr>stock_price = sp, flow_price = fp, conservation_npv = calculate_npv self (?v sp fp) None\<rparr> \<in> set ?eq
      \<longleftrightarrow> calculate_npv self (?v sp fp) None \<ge> threshold"
    by simp
  show ?thesis
    using cf len later eq mem by (intro exI [of _ "?v sp fp"] exI [of _ ?eq] conjI) simp_all
qed

theorem C1_witness:
  "0 < DISCOUNT_RATE (init 1 (8 / 100) 2) \<and> DISCOUNT_RATE (init 1 (8 / 100) 2) < 1
   \<and> 1 \<le> TIME_HORIZON (init 1 (8 / 100) 2)
   \<and> np_percentile [0] 75 = Inr 0
   \<and> 0 \<in> set (np_linspace 0 1000 100) \<and> 1000 \<in> set (np_linspace 0 1000 100)
   \<and> (\<exists>eq. conservation_cash_flows (init 1 (8 / 100) 2) 0 1000 = Inr [0, 9500]
         \<and> find_equilibrium_carbon_prices (init 1 (8 / 100) 2) [0] = Inr eq
         \<and> \<lparr>stock_price = 0, flow_price = 1000, conservation_npv = 9500 / (108 / 100)\<rparr> \<in> set eq)"
proof -
  let ?S = "init 1 (8 / 100) 2"
  have h1: "0 < DISCOUNT_RATE ?S" and h2: "DISCOUNT_RATE ?S < 1" and h3: "1 \<le> TIME_HORIZON ?S"
    by (simp_all add: init_def)
  have h4: "np_percentile [0] 75 = Inr 0" by (simp add: np_percentile_def)
  have cf: "conservation_cash_flows ?S 0 1000 = Inr [0, 9500]"
    by (simp add: conservation_cash_flows_def np_zeros_def set_item0_def set_slice1_def init_def
        numeral_2_eq_2)
  have npv: "calculate_npv ?S [0, 9500] None = 9500 / (108 / 100)"
    by (simp add: calculate_npv_def init_def)
  from C1_conservation_vector_and_retention [OF h1 h2 h3 h4 grid_first grid_last]
  obtain eq where eq: "find_equilibrium_carbon_prices ?S [0] = Inr eq"
    and iff: "\<lparr>stock_price = 0, flow_price = 1000, conservation_npv = calculate_npv ?S [0, 9500] None\<rparr> \<in> set eq
          \<longleftrightarrow> calculate_npv ?S [0, 9500] None \<ge> 0"
    using cf by auto
  have "(0::real) \<le> 9500 / (108 / 100)" by simp
  with iff have "\<lparr>stock_price = 0, flow_price = 1000, conservation_npv = 9500 / (108 / 100)\<rparr> \<in> set eq"
    unfolding npv by blast
  with eq cf have "\<exists>eq. conservation_cash_flows ?S 0 1000 = Inr [0, 9500]
         \<and> find_equilibrium_carbon_prices ?S [0] = Inr eq
         \<and> \<lparr>stock_price = 0, flow_price = 1000, conservation_npv = 9500 / (108 / 100)\<rparr> \<in> set eq"
    by blast
  with h1 h2 h3 h4 grid_first grid_last show ?thesis by blast
qed

text \<open>
  C2. For every cash-flow vector \<open>v\<close> and every rate \<open>r\<close> with \<open>0 \<le> r < 1\<close>,
  \<open>calculate_npv v r\<close> is the sum over \<open>t = 0..n-1\<close> of \<open>v[t] / (1 + r)^t\<close>; at
  \<open>r = 0\<close> the same code path is taken and the result is the plain sum of the entries.
\<close>

theorem C2_calculate_npv_formula:
  assumes "0 \<le> r" and "r < 1"
  shows "calculate_npv self v (Some r) = (\<Sum>t<length v. v ! t / (1 + r) ^ t)
         \<and> calculate_npv self v (Some 0) = sum_list v"
proof -
  have "(\<Sum>t<length v. v ! t) = sum_list v"
    by (simp add: sum_list_sum_nth atLeast0LessThan)
  then show ?thesis
    by (simp add: calculate_npv_sum)
qed

theorem C2_witness:
  "(0::real) \<le> 8 / 100 \<and> (8::real) / 100 < 1
   \<and> calculate_npv (init 1 (8 / 100) 2) [5690, 95] (Some (8 / 100)) = 5690 + 95 / (108 / 100)
   \<and> calculate_npv (init 1 (8 / 100) 2) [5690, 95] (Some 0) = 5785"
  using C2_calculate_npv_formula [of "8 / 100" "init 1 (8 / 100) 2" "[5690, 95]"]
  by (simp add: lessThan_Suc numeral_2_eq_2)

text \<open>
  C3. With a horizon of at least one year and a non-negative timber value, a trial's
  conventional vector has exactly \<open>TIME_HORIZON\<close> entries; year 0 is timber plus cattle
  revenue, every other even year is the cattle revenue, every odd year is the soy
  revenue; and the trial loop builds the vector of trial \<open>i\<close> from the single pair
  (\<open>cattle_revenues[i]\<close>, \<open>soy_revenues[i]\<close>), used for all its years.
\<close>

theorem C3_conventional_cash_flows:
  assumes "1 \<le> TIME_HORIZON self" and "0 \<le> timber_value"
  shows "(\<exists>cf. conventional_cash_flows self timber_value cattle_revenue soy_revenue = Inr cf
           \<and> length cf = nat (TIME_HORIZON self)
           \<and> cf ! 0 = timber_value + cattle_revenue
           \<and> (\<forall>t. 0 < t \<and> t < nat (TIME_HORIZON self) \<and> even t \<longrightarrow> cf ! t = cattle_revenue)
           \<and> (\<forall>t. t < nat (TIME_HORIZON self) \<and> odd t \<longrightarrow> cf ! t = soy_revenue))
       \<and> trials self timber_value cattle_revenues soy_revenues ixs [] =
         Inr (map (\<lambda>i. calculate_npv self
                (map (\<lambda>t. (if t = 0 then timber_value else 0) +
                       (if even t then cattle_revenues ! i else soy_revenues ! i))
                   [0..<nat (TIME_HORIZON self)]) None) ixs)"
proof -
  let ?h = "nat (TIME_HORIZON self)"
  let ?cf = "map (\<lambda>t. (if t = 0 then timber_value else 0) + (if even t then cattle_revenue else soy_revenue)) [0..<?h]"
  have "conventional_cash_flows self timber_value cattle_revenue soy_revenue = Inr ?cf"
    by (rule conventional_cash_flows_closed [OF assms])
  moreover have "length ?cf = ?h" by simp
  moreover have "?cf ! 0 = timber_value + cattle_revenue" using assms(1) by simp
  moreover have "\<forall>t. 0 < t \<and> t < ?h \<and> even t \<longrightarrow> ?cf ! t = cattle_revenue" by simp
  moreover have "\<forall>t. t < ?h \<and> odd t \<longrightarrow> ?cf ! t = soy_revenue" by auto
  ultimately have vec: "\<exists>cf. conventional_cash_flows self timber_value cattle_revenue soy_revenue = Inr cf
           \<and> length cf = nat (TIME_HORIZON self)
           \<and> cf ! 0 = timber_value + cattle_revenue
           \<and> (\<forall>t. 0 < t \<and> t < nat (TIME_HORIZON self) \<and> even t \<longrightarrow> cf ! t = cattle_revenue)
           \<and> (\<forall>t. t < nat (TIME_HORIZON self) \<and> odd t \<longrightarrow> cf ! t = soy_revenue)"
    by blast
  have loop: "trials self timber_value cattle_revenues soy_revenues ixs [] =
         Inr (map (\<lambda>i. calculate_npv self
                (map (\<lambda>t. (if t = 0 then timber_value else 0) +
                       (if even t then cattle_revenues ! i else soy_revenues ! i))
                   [0..<nat (TIME_HORIZON self)]) None) ixs)"
    by (rule trials_per_trial_pair [OF assms])
  from vec loop show ?thesis by (rule conjI)
qed

theorem C3_witness:
  "1 \<le> TIME_HORIZON (init 1 0 4) \<and> (0::real) \<le> 5000
   \<and> (\<exists>cf. conventional_cash_flows (init 1 0 4) 5000 800 6100 = Inr cf
         \<and> length cf = 4 \<and> cf ! 0 = 5800 \<and> cf ! 1 = 6100 \<and> cf ! 2 = 800 \<and> cf ! 3 = 6100)"
proof -
  let ?S = "init 1 0 4"
  have h1: "1 \<le> TIME_HORIZON ?S" by (simp add: init_def)
  have h2: "(0::real) \<le> 5000" by simp
  have four: "nat (TIME_HORIZON ?S) = 4" by (simp add: init_def)
  from C3_conventional_cash_flows [OF h1 h2, of 800 6100]
  obtain cf where cf: "conventional_cash_flows ?S 5000 800 6100 = Inr cf"
    and len: "length cf = 4" and y0: "cf ! 0 = 5000 + 800"
    and ev: "\<forall>t. 0 < t \<and> t < 4 \<and> even t \<longrightarrow> cf ! t = 800"
    and od: "\<forall>t. t < 4 \<and> odd t \<longrightarrow> cf ! t = 6100"
    unfolding four by blast
  have "cf ! 1 = 6100" using od by simp
  moreover have "cf ! 2 = 800" using ev by simp
  moreover have "cf ! 3 = 6100" using od by simp
  ultimately show ?thesis using h1 h2 cf len y0 by auto
qed

text \<open>
  C4 on the code. One trial, rate 0.08, horizon 2, no timber, cattle and soy revenue both
  \<open>10^9\<close> with zero deviation: the conventional NPV exceeds what any grid point can reach,
  the equilibrium frame is empty, and the summary ends in KeyError when it selects the
  column \<open>stock_price\<close>; no "no equilibrium found" result is returned.
\<close>

theorem C4_empty_set_raises_KeyError:
  "run_simulation (init 1 0.08 2) (constant_source 0) 0 1000000000 0 1000000000 0 = Inl KeyError"
proof -
  let ?S = "init 1 0.08 2"
  let ?x = "1000000000 + 1000000000 / 1.08 :: real"
  have h: "0 \<le> num_simulations ?S" "(0::real) \<le> 0" "1 \<le> TIME_HORIZON ?S"
    by (simp_all add: init_def)
  have two: "[0..<nat (TIME_HORIZON ?S)] = [0, 1]"
    by (simp add: init_def upt_rec numeral_2_eq_2)
  have one: "[0..<nat (num_simulations ?S)] = [0]"
    by (simp add: init_def)
  have sim: "simulate_conventional_use ?S (constant_source 0) 0 1000000000 0 1000000000 0 =
        Inr ([?x], (\<lambda>i. constant_source 0 (i + nat (num_simulations ?S) + nat (num_simulations ?S))))"
    unfolding simulate_conventional_use_closed [OF h(1) h(2) h(2) h(3) h(2)] two one
    by (simp add: calculate_npv_def init_def)
  have p: "np_percentile [?x] 75 = Inr ?x" by (rule np_percentile_singleton)
  have below: "calculate_npv ?S
        (CARBON_STOCK ?S * sp # replicate (nat (TIME_HORIZON ?S) - 1) (ANNUAL_ABSORPTION ?S * fp)) None < ?x"
    if "sp \<in> set (np_linspace 0 1000 100)" and "fp \<in> set (np_linspace 0 1000 100)" for sp fp
  proof -
    have b: "sp \<le> 1000" "fp \<le> 1000" using that grid_bounds by blast+
    have "calculate_npv ?S
        (CARBON_STOCK ?S * sp # replicate (nat (TIME_HORIZON ?S) - 1) (ANNUAL_ABSORPTION ?S * fp)) None
          = 569 * sp + 9.5 * fp / 1.08"
      by (simp add: calculate_npv_def init_def numeral_2_eq_2)
    also have "\<dots> \<le> 569 * 1000 + 9.5 * 1000 / 1.08" using b by simp
    also have "\<dots> < ?x" by simp
    finally show ?thesis .
  qed
  have "filter (\<lambda>pt. conservation_npv pt \<ge> ?x) (map (\<lambda>(sp, fp). \<lparr>stock_price = sp, flow_price = fp,
        conservation_npv = calculate_npv ?S
           (CARBON_STOCK ?S * sp # replicate (nat (TIME_HORIZON ?S) - 1) (ANNUAL_ABSORPTION ?S * fp)) None\<rparr>)
      (List.product (np_linspace 0 1000 100) (np_linspace 0 1000 100))) = []"
    unfolding filter_empty_conv
  proof (intro ballI)
    fix pt
    assume "pt \<in> set (map (\<lambda>(sp, fp). \<lparr>stock_price = sp, flow_price = fp,
        conservation_npv = calculate_npv ?S
           (CARBON_STOCK ?S * sp # replicate (nat (TIME_HORIZON ?S) - 1) (ANNUAL_ABSORPTION ?S * fp)) None\<rparr>)
      (List.product (np_linspace 0 1000 100) (np_linspace 0 1000 100)))"
    then obtain sp fp where g: "sp \<in> set (np_linspace 0 1000 100)" "fp \<in> set (np_linspace 0 1000 100)"
      and pt: "conservation_npv pt = calculate_npv ?S
           (CARBON_STOCK ?S * sp # replicate (nat (TIME_HORIZON ?S) - 1) (ANNUAL_ABSORPTION ?S * fp)) None"
      by auto
    from below [OF g] show "\<not> ?x \<le> conservation_npv pt"
      unfolding pt by simp
  qed
  then have "find_equilibrium_carbon_prices ?S [?x] = Inr []"
    unfolding find_equilibrium_closed [OF h(3) p] by (rule arg_cong)
  from run_simulation_empty_frame [OF sim _ this] show ?thesis by simp
qed

text \<open>
  C5. With non-negative carbon stock and absorption, a discount rate in \<open>(0,1)\<close> and a
  horizon of at least one year, raising the stock price alone or the flow price alone
  never lowers the NPV of the conservation vector.
\<close>

theorem C5_conservation_npv_monotone:
  assumes "0 \<le> CARBON_STOCK self" and "0 \<le> ANNUAL_ABSORPTION self"
    and "0 < DISCOUNT_RATE self" and "DISCOUNT_RATE self < 1"
    and "1 \<le> TIME_HORIZON self"
    and "sp \<le> sp'" and "fp \<le> fp'"
  shows "\<exists>a b c. conservation_cash_flows self sp fp = Inr a
           \<and> conservation_cash_flows self sp' fp = Inr b
           \<and> conservation_cash_flows self sp fp' = Inr c
           \<and> calculate_npv self a None \<le> calculate_npv self b None
           \<and> calculate_npv self a None \<le> calculate_npv self c None"
proof -
  let ?h = "nat (TIME_HORIZON self)"
  let ?v = "\<lambda>sp fp. CARBON_STOCK self * sp # replicate (?h - 1) (ANNUAL_ABSORPTION self * fp)"
  have r: "0 \<le> DISCOUNT_RATE self" using assms(3) by simp
  have s: "CARBON_STOCK self * sp \<le> CARBON_STOCK self * sp'"
    using assms(1) assms(6) by (rule mult_left_mono [rotated])
  have f: "ANNUAL_ABSORPTION self * fp \<le> ANNUAL_ABSORPTION self * fp'"
    using assms(2) assms(7) by (rule mult_left_mono [rotated])
  have "calculate_npv self (?v sp fp) None \<le> calculate_npv self (?v sp' fp) None"
    by (rule calculate_npv_mono [OF r]) (auto simp: nth_Cons s split: nat.splits)
  moreover have "calculate_npv self (?v sp fp) None \<le> calculate_npv self (?v sp fp') None"
    by (rule calculate_npv_mono [OF r]) (auto simp: nth_Cons f split: nat.splits)
  ultimately show ?thesis
    using conservation_cash_flows_closed [OF assms(5)] by blast
qed

theorem C5_witness:
  "0 \<le> CARBON_STOCK (init 1 (8 / 100) 2) \<and> 0 \<le> ANNUAL_ABSORPTION (init 1 (8 / 100) 2)
   \<and> 0 < DISCOUNT_RATE (init 1 (8 / 100) 2) \<and> DISCOUNT_RATE (init 1 (8 / 100) 2) < 1
   \<and> 1 \<le> TIME_HORIZON (init 1 (8 / 100) 2) \<and> (10::real) \<le> 20 \<and> (10::real) \<le> 30
   \<and> calculate_npv (init 1 (8 / 100) 2) [5690, 95] None \<le> calculate_npv (init 1 (8 / 100) 2) [11380, 95] None
   \<and> calculate_npv (init 1 (8 / 100) 2) [5690, 95] None \<le> calculate_npv (init 1 (8 / 100) 2) [5690, 285] None"
proof -
  let ?S = "init 1 (8 / 100) 2"
  have h: "0 \<le> CARBON_STOCK ?S" "0 \<le> ANNUAL_ABSORPTION ?S" "0 < DISCOUNT_RATE ?S"
    "DISCOUNT_RATE ?S < 1" "1 \<le> TIME_HORIZON ?S"
    by (simp_all add: init_def)
  have k: "(10::real) \<le> 20" "(10::real) \<le> 30" by simp_all
  have cf: "conservation_cash_flows ?S 10 10 = Inr [5690, 95]"
    "conservation_cash_flows ?S 20 10 = Inr [11380, 95]"
    "conservation_cash_flows ?S 10 30 = Inr [5690, 285]"
    by (simp_all add: conservation_cash_flows_def np_zeros_def set_item0_def set_slice1_def init_def
        numeral_2_eq_2)
  from C5_conservation_npv_monotone [OF h k] cf
  have "calculate_npv ?S [5690, 95] None \<le> calculate_npv ?S [11380, 95] None
        \<and> calculate_npv ?S [5690, 95] None \<le> calculate_npv ?S [5690, 285] None"
    by auto
  with h k show ?thesis by simp
qed

text \<open>
  C6, as the code has it. The discount rate is not checked: with at least one trial, a
  horizon of at least one year and non-negative deviations the conventional NPVs (one per
  trial) are produced whatever the rate is. The other fields end \<open>run_simulation\<close> in
  the exception of the library call that meets the value:
  \<^item> a negative trial count or cattle deviation: ValueError, which the first sampling call
    itself raises;
  \<^item> a negative soy deviation, the rest accepted by the sampler: ValueError, although the
    cattle sampling call has succeeded;
  \<^item> a horizon below 0: ValueError, a horizon of 0: IndexError, although both sampling
    calls have succeeded;
  \<^item> no trials, with a horizon of at least one year: the conventional simulation returns
    the empty array and the run then ends in an exception.
\<close>

theorem C6_no_validation:
  "(num_simulations self < 0 \<or> cattle_std < 0 \<longrightarrow>
      generate_price_scenarios self rng cm cattle_std = Inl ValueError
      \<and> run_simulation self rng tv cm cattle_std sm soy_std = Inl ValueError)
   \<and> (0 \<le> num_simulations self \<and> 0 \<le> cattle_std \<and> soy_std < 0 \<longrightarrow>
      \<not> isl (generate_price_scenarios self rng cm cattle_std)
      \<and> run_simulation self rng tv cm cattle_std sm soy_std = Inl ValueError)
   \<and> (0 \<le> num_simulations self \<and> 0 \<le> cattle_std \<and> 0 \<le> soy_std \<and> TIME_HORIZON self \<le> 0 \<longrightarrow>
      (\<exists>cr rng1 sr rng2. generate_price_scenarios self rng cm cattle_std = Inr (cr, rng1)
          \<and> generate_price_scenarios self rng1 sm soy_std = Inr (sr, rng2))
      \<and> run_simulation self rng tv cm cattle_std sm soy_std =
          Inl (if TIME_HORIZON self < 0 then ValueError else IndexError))
   \<and> (num_simulations self = 0 \<and> 0 \<le> cattle_std \<and> 0 \<le> soy_std \<and> 1 \<le> TIME_HORIZON self \<longrightarrow>
      (\<exists>rng'. simulate_conventional_use self rng tv cm cattle_std sm soy_std = Inr ([], rng'))
      \<and> isl (run_simulation self rng tv cm cattle_std sm soy_std))
   \<and> (1 \<le> num_simulations self \<and> 1 \<le> TIME_HORIZON self \<and> 0 \<le> cattle_std \<and> 0 \<le> soy_std \<longrightarrow>
      (\<exists>npvs rng'. simulate_conventional_use self rng tv cm cattle_std sm soy_std = Inr (npvs, rng')
          \<and> length npvs = nat (num_simulations self)))"
proof (intro conjI impI)
  assume a: "num_simulations self < 0 \<or> cattle_std < 0"
  then show "generate_price_scenarios self rng cm cattle_std = Inl ValueError"
    by (rule generate_price_scenarios_rejects)
  from a have "num_simulations self < 0 \<or> cattle_std < 0 \<or> soy_std < 0" by blast
  then show "run_simulation self rng tv cm cattle_std sm soy_std = Inl ValueError"
    by (intro run_simulation_Inl simulate_conventional_use_rejects)
next
  assume b: "0 \<le> num_simulations self \<and> 0 \<le> cattle_std \<and> soy_std < 0"
  then show "\<not> isl (generate_price_scenarios self rng cm cattle_std)"
    by (simp add: generate_price_scenarios_ok)
  from b have "num_simulations self < 0 \<or> cattle_std < 0 \<or> soy_std < 0" by blast
  then show "run_simulation self rng tv cm cattle_std sm soy_std = Inl ValueError"
    by (intro run_simulation_Inl simulate_conventional_use_rejects)
next
  assume c: "0 \<le> num_simulations self \<and> 0 \<le> cattle_std \<and> 0 \<le> soy_std \<and> TIME_HORIZON self \<le> 0"
  then show "\<exists>cr rng1 sr rng2. generate_price_scenarios self rng cm cattle_std = Inr (cr, rng1)
          \<and> generate_price_scenarios self rng1 sm soy_std = Inr (sr, rng2)"
    by (simp add: generate_price_scenarios_ok)
  from c show "run_simulation self rng tv cm cattle_std sm soy_std =
          Inl (if TIME_HORIZON self < 0 then ValueError else IndexError)"
    by (intro run_simulation_bad_horizon) simp_all
next
  assume d: "num_simulations self = 0 \<and> 0 \<le> cattle_std \<and> 0 \<le> soy_std \<and> 1 \<le> TIME_HORIZON self"
  then show "\<exists>rng'. simulate_conventional_use self rng tv cm cattle_std sm soy_std = Inr ([], rng')"
    by (intro simulate_conventional_use_no_trials) simp_all
  from d show "isl (run_simulation self rng tv cm cattle_std sm soy_std)"
    by (intro run_simulation_no_trials) simp_all
next
  assume "1 \<le> num_simulations self \<and> 1 \<le> TIME_HORIZON self \<and> 0 \<le> cattle_std \<and> 0 \<le> soy_std"
  then show "\<exists>npvs rng'. simulate_conventional_use self rng tv cm cattle_std sm soy_std = Inr (npvs, rng')
          \<and> length npvs = nat (num_simulations self)"
    using simulate_conventional_use_ok by blast
qed

theorem C6_witness:
  "((-1::real) < 0
      \<and> generate_price_scenarios (init 1000 0.08 30) (constant_source 0) 800 (-1) = Inl ValueError
      \<and> run_simulation (init 1000 0.08 30) (constant_source 0) 5000 800 (-1) 6100 300 = Inl ValueError)
   \<and> (0 \<le> num_simulations (init 1000 0.08 30) \<and> (0::real) \<le> 200 \<and> (-1::real) < 0
      \<and> \<not> isl (generate_price_scenarios (init 1000 0.08 30) (constant_source 0) 800 200)
      \<and> run_simulation (init 1000 0.08 30) (constant_source 0) 5000 800 200 6100 (-1) = Inl ValueError)
   \<and> (TIME_HORIZON (init 1000 0.08 0) \<le> 0
      \<and> run_simulation (init 1000 0.08 0) (constant_source 0) 5000 800 200 6100 300 = Inl IndexError)
   \<and> (TIME_HORIZON (init 1000 0.08 (-5)) \<le> 0
      \<and> run_simulation (init 1000 0.08 (-5)) (constant_source 0) 5000 800 200 6100 300 = Inl ValueError)
   \<and> (num_simulations (init 0 0.08 30) = 0 \<and> 1 \<le> TIME_HORIZON (init 0 0.08 30)
      \<and> isl (run_simulation (init 0 0.08 30) (constant_source 0) 5000 800 200 6100 300))
   \<and> (1 \<le> num_simulations (init 1 1.5 2) \<and> 1 \<le> TIME_HORIZON (init 1 1.5 2)
      \<and> \<not> DISCOUNT_RATE (init 1 1.5 2) < 1
      \<and> (\<exists>npvs rng'. simulate_conventional_use (init 1 1.5 2) (constant_source 0) 0 800 0 6100 0
                        = Inr (npvs, rng')
            \<and> length npvs = 1))"
proof -
  let ?src = "constant_source 0"
  have a: "generate_price_scenarios (init 1000 0.08 30) ?src 800 (-1) = Inl ValueError
      \<and> run_simulation (init 1000 0.08 30) ?src 5000 800 (-1) 6100 300 = Inl ValueError"
    using C6_no_validation [of "init 1000 0.08 30" "-1" ?src 800 5000 6100 300]
    by simp
  have hb: "0 \<le> num_simulations (init 1000 0.08 30)" by (simp add: init_def)
  have b: "\<not> isl (generate_price_scenarios (init 1000 0.08 30) ?src 800 200)
      \<and> run_simulation (init 1000 0.08 30) ?src 5000 800 200 6100 (-1) = Inl ValueError"
    using C6_no_validation [of "init 1000 0.08 30" 200 ?src 800 5000 6100 "-1"] hb
    by simp
  have hc: "TIME_HORIZON (init 1000 0.08 0) \<le> 0" "\<not> TIME_HORIZON (init 1000 0.08 0) < 0"
    "0 \<le> num_simulations (init 1000 0.08 0)"
    by (simp_all add: init_def)
  have c: "run_simulation (init 1000 0.08 0) ?src 5000 800 200 6100 300 = Inl IndexError"
    using C6_no_validation [of "init 1000 0.08 0" 200 ?src 800 5000 6100 300] hc
    by simp
  have hd: "TIME_HORIZON (init 1000 0.08 (-5)) \<le> 0" "TIME_HORIZON (init 1000 0.08 (-5)) < 0"
    "0 \<le> num_simulations (init 1000 0.08 (-5))"
    by (simp_all add: init_def)
  have d: "run_simulation (init 1000 0.08 (-5)) ?src 5000 800 200 6100 300 = Inl ValueError"
    using C6_no_validation [of "init 1000 0.08 (-5)" 200 ?src 800 5000 6100 300] hd
    by simp
  have he: "num_simulations (init 0 0.08 30) = 0" "1 \<le> TIME_HORIZON (init 0 0.08 30)"
    by (simp_all add: init_def)
  have e: "isl (run_simulation (init 0 0.08 30) ?src 5000 800 200 6100 300)"
    using C6_no_validation [of "init 0 0.08 30" 200 ?src 800 5000 6100 300] he
    by simp
  have g: "1 \<le> num_simulations (init 1 1.5 2)" "1 \<le> TIME_HORIZON (init 1 1.5 2)"
    "\<not> DISCOUNT_RATE (init 1 1.5 2) < 1" "nat (num_simulations (init 1 1.5 2)) = 1"
    by (simp_all add: init_def)
  have f: "\<exists>npvs rng'. simulate_conventional_use (init 1 1.5 2) ?src 0 800 0 6100 0
                        = Inr (npvs, rng') \<and> length npvs = 1"
    using C6_no_validation [of "init 1 1.5 2" 0 ?src 800 0 6100 0] g
    by simp
  from a hb b hc(1) c hd(1) d he e g(1,2,3) f show ?thesis by simp
qed

text \<open>
  C6 as stated fails, at three runs the code accepts as calls.
  \<^item> A discount rate of 0 lies outside \<open>(0,1)\<close>, yet one trial with cattle 800 and soy 6100
    (zero deviations), no timber and a horizon of 2 gives the distribution [6900], and
    \<open>run_simulation\<close> returns its results.
  \<^item> With a soy deviation of -1 the cattle sampling call succeeds before the run ends in
    ValueError: the rejection does not precede all sampling.
  \<^item> With a cattle deviation of -1 instead, the run ends in the same ValueError: the
    error does not tell which field was at fault.
\<close>

theorem C6_counterexample:
  "\<not> (0 < DISCOUNT_RATE (init 1 0 2) \<and> DISCOUNT_RATE (init 1 0 2) < 1)
   \<and> map_sum id fst (simulate_conventional_use (init 1 0 2) (constant_source 0) 0 800 0 6100 0)
       = Inr [6900]
   \<and> \<not> isl (run_simulation (init 1 0 2) (constant_source 0) 0 800 0 6100 0)
   \<and> \<not> isl (generate_price_scenarios (init 2 0.08 30) (constant_source 0) 800 200)
   \<and> run_simulation (init 2 0.08 30) (constant_source 0) 5000 800 200 6100 (-1) = Inl ValueError
   \<and> run_simulation (init 2 0.08 30) (constant_source 0) 5000 800 (-1) 6100 300 = Inl ValueError"
proof -
  let ?S = "init 1 0 2"
  have h: "0 \<le> num_simulations ?S" "(0::real) \<le> 0" "1 \<le> TIME_HORIZON ?S"
    by (simp_all add: init_def)
  have two: "[0..<nat (TIME_HORIZON ?S)] = [0, 1]"
    by (simp add: init_def upt_rec numeral_2_eq_2)
  have one: "[0..<nat (num_simulations ?S)] = [0]"
    by (simp add: init_def)
  have r: "DISCOUNT_RATE ?S = 0" by (simp add: init_def)
  have sim: "simulate_conventional_use ?S (constant_source 0) 0 800 0 6100 0 =
        Inr ([6900], (\<lambda>i. constant_source 0 (i + nat (num_simulations ?S) + nat (num_simulations ?S))))"
    unfolding simulate_conventional_use_closed [OF h(1) h(2) h(2) h(3) h(2)] two one
    by (simp add: calculate_npv_rate_zero [OF r])
  have p: "np_percentile [6900] 75 = Inr 6900" by (rule np_percentile_singleton)
  let ?row = "\<lambda>(sp, fp). \<lparr>stock_price = sp, flow_price = fp,
        conservation_npv = calculate_npv ?S
           (CARBON_STOCK ?S * sp # replicate (nat (TIME_HORIZON ?S) - 1) (ANNUAL_ABSORPTION ?S * fp)) None\<rparr>"
  let ?G = "np_linspace 0 1000 100"
  let ?eq = "filter (\<lambda>pt. conservation_npv pt \<ge> 6900) (map ?row (List.product ?G ?G))"
  have eq: "find_equilibrium_carbon_prices ?S [6900] = Inr ?eq"
    by (rule find_equilibrium_closed [OF h(3) p])
  have "conservation_npv (?row (1000, 1000)) = 578500"
    by (simp add: calculate_npv_rate_zero [OF r]) (simp add: init_def numeral_2_eq_2)
  then have "conservation_npv (?row (1000, 1000)) \<ge> 6900" by simp
  moreover have "?row (1000, 1000) \<in> set (map ?row (List.product ?G ?G))"
  proof -
    have "(1000, 1000) \<in> set (List.product ?G ?G)" using grid_last by simp
    then show ?thesis unfolding set_map by (rule imageI)
  qed
  ultimately have "?row (1000, 1000) \<in> set ?eq" by (simp only: set_filter mem_Collect_eq conj_commute)
  then have ne: "?eq \<noteq> []" by (metis empty_iff empty_set)
  have run: "\<not> isl (run_simulation ?S (constant_source 0) 0 800 0 6100 0)"
    by (rule run_simulation_nonempty_frame [OF sim _ eq ne]) simp
  let ?T = "init 2 0.08 30"
  have n: "0 \<le> num_simulations ?T" by (simp add: init_def)
  have drawn: "\<not> isl (generate_price_scenarios ?T (constant_source 0) 800 200)"
    using n by (simp add: generate_price_scenarios_ok)
  have soy: "run_simulation ?T (constant_source 0) 5000 800 200 6100 (-1) = Inl ValueError"
    by (intro run_simulation_Inl simulate_conventional_use_rejects) simp
  have cattle: "run_simulation ?T (constant_source 0) 5000 800 (-1) 6100 300 = Inl ValueError"
    by (intro run_simulation_Inl simulate_conventional_use_rejects) simp
  from sim r run drawn soy cattle show ?thesis by simp
qed

text \<open>
  C8, as the code has it. At a discount rate of 0.08 and a horizon of 2, with the 75th
  percentile of the conventional NPVs equal to 0, the loop body run on the price pair
  (10, 10) builds the vector [5690, 95], values it at \<open>5690 + 95 / 1.08\<close> (within 0.01
  of 5777.96) and appends the row, since that value is at least 0. The pair (10, 10) is
  not a point of the grid the code enumerates (100 points on [0, 1000], step 1000/99).
\<close>

theorem C8_price_pair_10_10:
  "conservation_cash_flows (init 1 (8 / 100) 2) 10 10 = Inr [5690, 95]
   \<and> calculate_npv (init 1 (8 / 100) 2) [5690, 95] None = 5690 + 95 / 1.08
   \<and> \<bar>calculate_npv (init 1 (8 / 100) 2) [5690, 95] None - 5777.96\<bar> < 0.01
   \<and> np_percentile [0] 75 = Inr 0
   \<and> grid_cell (init 1 (8 / 100) 2) [0] 10 10 acc =
       Inr (acc @ [\<lparr>stock_price = 10, flow_price = 10, conservation_npv = 5690 + 95 / 1.08\<rparr>])
   \<and> 10 \<notin> set (np_linspace 0 1000 100)"
proof -
  let ?S = "init 1 (8 / 100) 2"
  have npv: "calculate_npv ?S [5690, 95] None = 5690 + 95 / 1.08"
    by (simp add: calculate_npv_def init_def)
  have p: "np_percentile [0] 75 = Inr 0" by (simp add: np_percentile_def)
  have "grid_cell ?S [0] 10 10 acc =
       Inr (acc @ [\<lparr>stock_price = 10, flow_price = 10, conservation_npv = 5690 + 95 / 1.08\<rparr>])"
    unfolding grid_cell_closed [OF conservation_cash_flows_10_10 p] npv by simp
  moreover have "\<bar>calculate_npv ?S [5690, 95] None - 5777.96\<bar> < 0.01"
    unfolding npv by simp
  ultimately show ?thesis
    using conservation_cash_flows_10_10 npv p ten_not_on_grid by blast
qed

text \<open>
  C8 as stated fails: the frame returned for this configuration holds no row with stock
  price 10 and flow price 10.
\<close>

theorem C8_counterexample:
  "\<not> isl (find_equilibrium_carbon_prices (init 1 (8 / 100) 2) [0])
   \<and> \<lparr>stock_price = 10, flow_price = 10, conservation_npv = 5690 + 95 / 1.08\<rparr>
       \<notin> set (projr (find_equilibrium_carbon_prices (init 1 (8 / 100) 2) [0]))"
proof -
  let ?S = "init 1 (8 / 100) 2"
  let ?pt = "\<lparr>stock_price = 10, flow_price = 10, conservation_npv = 5690 + 95 / 1.08\<rparr>"
  have h: "1 \<le> TIME_HORIZON ?S" by (simp add: init_def)
  have p: "np_percentile [0] 75 = Inr 0" by (simp add: np_percentile_def)
  from find_equilibrium_closed [OF h p]
  obtain eq where eq: "find_equilibrium_carbon_prices ?S [0] = Inr eq" by blast
  have "?pt \<notin> set eq"
  proof
    assume "?pt \<in> set eq"
    from find_equilibrium_rows_on_grid [OF eq this h] have "stock_price ?pt \<in> set (np_linspace 0 1000 100)"
      by simp
    with ten_not_on_grid show False by simp
  qed
  with eq show ?thesis by simp
qed

text \<open>
  C9. cattle 800 and soy 6100 with zero standard deviations, no timber, a horizon of two
  years and a discount rate of 0: the simulation does not fail, and every trial's NPV is
  exactly 6900.
\<close>

theorem C9_degenerate_distribution:
  assumes "0 \<le> n"
  shows "map_sum id fst (simulate_conventional_use (init n 0 2) rng 0 800 0 6100 0)
         = Inr (replicate (nat n) 6900)"
proof -
  let ?S = "init n 0 2"
  have h: "0 \<le> num_simulations ?S" "(0::real) \<le> 0" "1 \<le> TIME_HORIZON ?S"
    using assms by (simp_all add: init_def)
  have two: "[0..<nat (TIME_HORIZON ?S)] = [0, 1]"
    by (simp add: init_def upt_rec numeral_2_eq_2)
  have r: "DISCOUNT_RATE ?S = 0" by (simp add: init_def)
  have "simulate_conventional_use ?S rng 0 800 0 6100 0 =
        Inr (map (\<lambda>i. 6900) [0..<nat n], (\<lambda>i. rng (i + nat n + nat n)))"
    unfolding simulate_conventional_use_closed [OF h(1) h(2) h(2) h(3) h(2)] two
    by (simp add: calculate_npv_rate_zero [OF r]) (simp add: init_def)
  then show ?thesis by (simp add: map_replicate_const)
qed

theorem C9_witness:
  "(0::int) \<le> 3
   \<and> map_sum id fst (simulate_conventional_use (init 3 0 2) (constant_source 1) 0 800 0 6100 0)
       = Inr [6900, 6900, 6900]"
  using C9_degenerate_distribution [of 3 "constant_source 1"]
  by (simp add: numeral_3_eq_3)

text \<open>
  C10. For every non-empty distribution of conventional NPVs (a horizon of at least one
  year, a discount rate other than \<open>-1\<close>), the search of the code, which recomputes the
  75th percentile in every grid cell, returns exactly the list that the decoupled search
  of the specification returns when it is handed that percentile once, as a scalar
  threshold, on the grid of 100 points spanning \<open>[0, 1000]\<close>.
\<close>

theorem C10_search_refines_decoupled_search:
  assumes "conventional_npvs \<noteq> []" and "1 \<le> TIME_HORIZON self"
    and "DISCOUNT_RATE self \<noteq> - 1"
  shows "\<exists>threshold. np_percentile conventional_npvs 75 = Inr threshold
           \<and> find_equilibrium_carbon_prices self conventional_npvs =
               Inr (spec_search (CARBON_STOCK self) (ANNUAL_ABSORPTION self) (DISCOUNT_RATE self)
                      (nat (TIME_HORIZON self)) threshold 0 1000 100)"
proof -
  from np_percentile_nonempty [OF assms(1)]
  obtain threshold where p: "np_percentile conventional_npvs 75 = Inr threshold" by blast
  have h: "0 < nat (TIME_HORIZON self)" using assms(2) by simp
  have "find_equilibrium_carbon_prices self conventional_npvs =
        Inr (spec_search (CARBON_STOCK self) (ANNUAL_ABSORPTION self) (DISCOUNT_RATE self)
               (nat (TIME_HORIZON self)) threshold 0 1000 100)"
    unfolding find_equilibrium_closed [OF assms(2) p] spec_search_def Let_def spec_axis_linspace
    by (simp add: spec_conservation_vector_closed [OF h] spec_present_value_calculate_npv)
  with p show ?thesis by blast
qed

theorem C10_witness:
  "[0::real] \<noteq> [] \<and> 1 \<le> TIME_HORIZON (init 1 (8 / 100) 2)
   \<and> DISCOUNT_RATE (init 1 (8 / 100) 2) \<noteq> - 1
   \<and> np_percentile [0] 75 = Inr 0
   \<and> find_equilibrium_carbon_prices (init 1 (8 / 100) 2) [0] =
       Inr (spec_search 569 (95 / 10) (8 / 100) 2 0 0 1000 100)"
proof -
  let ?S = "init 1 (8 / 100) 2"
  have h1: "[0::real] \<noteq> []" by simp
  have h2: "1 \<le> TIME_HORIZON ?S" by (simp add: init_def)
  have h3: "DISCOUNT_RATE ?S \<noteq> - 1" by (simp add: init_def)
  have p: "np_percentile [0] 75 = Inr 0" by (simp add: np_percentile_def)
  from C10_search_refines_decoupled_search [OF h1 h2 h3]
  have "find_equilibrium_carbon_prices ?S [0] =
       Inr (spec_search 569 (95 / 10) (8 / 100) 2 0 0 1000 100)"
    unfolding p by (simp add: init_def)
  with h1 h2 h3 p show ?thesis by blast
qed

end
